theory Spec2Isabelle
  imports Complex_Main "HOL-Library.AList"
begin

unbundle bit_operations_syntax

section \<open>Symbols, activation maps and errors\<close>

text \<open>
  Modelled from the spec: \<open>ConstructType\<close> and \<open>Symbol\<close> are declared in
  \<open>base/symbols.py\<close>, which is not among the sources. The spec describes a symbol as an
  immutable pair of a kind and a name, the kinds being role tags "organized as a bit-flag
  set so a tag can be tested for membership in an allowed set". A kind is therefore a bit
  mask, and \<open>a in b\<close> holds when every bit of \<open>a\<close> is set in \<open>b\<close>.
\<close>

type_synonym ConstructType = nat

definition null_construct :: ConstructType where
  "null_construct = 0"

definition ctype_in :: "ConstructType \<Rightarrow> ConstructType \<Rightarrow> bool" where
  "ctype_in a b = (a AND b = a)"

datatype Symbol = Symbol (ctype: ConstructType) (cid: string)

text \<open>
  Modelled from the spec: the \<open>numdicts\<close> package is not among the sources. An activation
  map is "a sparse mapping from symbol-like keys to numeric strength, with a declared
  default value". The explicit entries are kept as a Python dictionary keeps them, a list
  of key-value pairs in insertion order with no key twice; the default may be \<open>None\<close>.
  Strengths are Python floats, of a type \<open>'v\<close> that is left open. A process only compares
  a default with 0 and builds the constant 0, which is exact, so the activation maps of
  processes carry real numbers; a rule computes with its weights, and there the type of
  the floats and their arithmetic are parameters.
\<close>

record ('k, 'v) NumDict =
  dict :: "('k \<times> 'v) list"
  default_val :: "'v option"

text \<open>
  What \<open>emit\<close> can be handed at run time: \<open>None\<close>, an instance of \<open>NumDict\<close>, or some
  other object. Of another object \<open>emit\<close> reads only the attribute \<open>default\<close>, which the
  object may lack (\<open>None\<close>) or carry (\<open>Some d\<close>, where \<open>d\<close> is itself Python's \<open>None\<close>
  or a number).
\<close>

datatype 'k pyobj =
    PyNone
  | NumDictObj "('k, real) NumDict"
  | OtherObj "real option option"

text \<open>
  The exceptions of the source, named after the error kinds of the spec where it names
  them. In the source \<open>KindMismatch\<close> and \<open>InvalidDefault\<close> are \<open>ValueError\<close>s,
  \<open>MissingInput\<close> is a \<open>RuntimeError\<close> whose message carries the missing path, and
  \<open>InvalidOutputType\<close> is a \<open>TypeError\<close>.
\<close>

datatype 'a error =
    KindMismatch
  | MissingInput 'a
  | InvalidDefault
  | InvalidOutputType
  | IndexError
  | AttributeError
  | KeyError

type_synonym ('a, 'k) inputs = "'a \<rightharpoonup> ('k, real) NumDict"

section \<open>Processes\<close>

text \<open>
  A \<open>Process\<close> carries the class attribute \<open>_serves\<close>, the fields \<open>_client\<close> and
  \<open>_expected\<close>, and the method \<open>call\<close> of its class, which a subclass overrides; the
  method sees the instance (its client and its expected addresses) and the inputs.
  A \<open>Composite\<close> carries \<open>_base\<close>, \<open>_expected_top\<close> and its own \<open>_expected\<close>; an
  instance of \<open>Wrapped\<close> is a composite with the two hooks \<open>preprocess\<close> and
  \<open>postprocess\<close>. The field \<open>_client\<close> that a composite inherits stays \<open>()\<close> and is
  never read, since \<open>client\<close> and \<open>entrust\<close> are overridden; it is left out.
\<close>

type_synonym ('a, 'k) callfn =
  "Symbol list \<Rightarrow> 'a list \<Rightarrow> ('a, 'k) inputs \<Rightarrow> 'a error + 'k pyobj"

type_synonym ('a, 'k) hooks =
  "(('a, 'k) inputs \<Rightarrow> 'a error + ('a, 'k) inputs) \<times>
   (('a, 'k) inputs \<Rightarrow> 'k pyobj \<Rightarrow> 'a error + 'k pyobj)"

datatype ('a, 'k) proc =
    Process ConstructType "Symbol list" "'a list" "('a, 'k) callfn"
  | Composite "('a, 'k) proc" "'a list" "'a list" "('a, 'k) hooks option"

text \<open>\<open>Process.call\<close>: the default returns \<open>NumDict(default=0)\<close>.\<close>

definition Process_call :: "('a, 'k) callfn" where
  "Process_call cl ex inp = Inr (NumDictObj \<lparr>dict = [], default_val = Some 0\<rparr>)"

text \<open>
  \<open>Process.__init__\<close>, for a class with the given \<open>_serves\<close> and \<open>call\<close>, and
  \<open>Composite.__init__\<close>; \<open>Wrapped\<close> inherits the latter, its class supplying the hooks.
\<close>

definition Process_init :: "ConstructType \<Rightarrow> ('a, 'k) callfn \<Rightarrow> 'a list \<Rightarrow> ('a, 'k) proc" where
  "Process_init sv cf ex = Process sv [] ex cf"

fun expected_field :: "('a, 'k) proc \<Rightarrow> 'a list" where
  "expected_field (Process sv cl ex cf) = ex"
| "expected_field (Composite b etop ex hk) = ex"

definition Composite_init ::
  "('a, 'k) proc \<Rightarrow> 'a list \<Rightarrow> ('a, 'k) hooks option \<Rightarrow> ('a, 'k) proc" where
  "Composite_init b ex hk = Composite b ex (ex @ expected_field b) hk"

text \<open>\<open>Wrapped.preprocess\<close> and \<open>Wrapped.postprocess\<close>: the identity by default.\<close>

definition Wrapped_hooks :: "('a, 'k) hooks" where
  "Wrapped_hooks = ((\<lambda>inp. Inr inp), (\<lambda>inp out. Inr out))"

fun base :: "('a, 'k) proc \<Rightarrow> ('a, 'k) proc" where
  "base (Composite b etop ex hk) = b"

text \<open>The property \<open>client\<close>: a composite answers with its base's client.\<close>

fun client :: "('a, 'k) proc \<Rightarrow> Symbol list" where
  "client (Process sv cl ex cf) = cl"
| "client (Composite b etop ex hk) = client b"

text \<open>
  The property \<open>expected\<close>. The function \<open>expand_address\<close> of \<open>base/symbols.py\<close> is
  not among the sources; it is the parameter \<open>ea\<close>.
\<close>

definition expected :: "(Symbol list \<Rightarrow> 'a \<Rightarrow> 'a) \<Rightarrow> ('a, 'k) proc \<Rightarrow> 'a list" where
  "expected ea p = map (ea (client p)) (expected_field p)"

fun expected_top :: "(Symbol list \<Rightarrow> 'a \<Rightarrow> 'a) \<Rightarrow> ('a, 'k) proc \<Rightarrow> 'a list" where
  "expected_top ea (Composite b etop ex hk) = map (ea (client (Composite b etop ex hk))) etop"

text \<open>
  \<open>entrust\<close>. \<open>path[-1]\<close> raises \<open>IndexError\<close> on the empty tuple. A composite forwards
  the call to its base.
\<close>

fun entrust :: "('a, 'k) proc \<Rightarrow> Symbol list \<Rightarrow> 'a error + ('a, 'k) proc" where
  "entrust (Process sv cl ex cf) path =
     (if path = [] then Inl IndexError
      else if ctype_in (ctype (last path)) sv then Inr (Process sv path ex cf)
      else Inl KindMismatch)"
| "entrust (Composite b etop ex hk) path =
     (case entrust b path of
        Inl e \<Rightarrow> Inl e
      | Inr b' \<Rightarrow> Inr (Composite b' etop ex hk))"

text \<open>
  The kind set that \<open>entrust\<close> consults, \<open>type(self)._serves\<close> of the process that runs
  \<open>Process.entrust\<close>: for a composite, its base's.
\<close>

fun serves :: "('a, 'k) proc \<Rightarrow> ConstructType" where
  "serves (Process sv cl ex cf) = sv"
| "serves (Composite b etop ex hk) = serves b"

text \<open>Entrusting a process to several paths, one after the other.\<close>

fun entrust_all :: "('a, 'k) proc \<Rightarrow> Symbol list list \<Rightarrow> 'a error + ('a, 'k) proc" where
  "entrust_all p [] = Inr p"
| "entrust_all p (path # paths) =
     (case entrust p path of
        Inl e \<Rightarrow> Inl e
      | Inr p' \<Rightarrow> entrust_all p' paths)"

text \<open>\<open>check_inputs\<close> stops at the first expected path that the inputs lack.\<close>

fun check_paths :: "('a, 'k) inputs \<Rightarrow> 'a list \<Rightarrow> 'a error + unit" where
  "check_paths inp [] = Inr ()"
| "check_paths inp (path # paths) =
     (if inp path = None then Inl (MissingInput path) else check_paths inp paths)"

definition check_inputs ::
  "(Symbol list \<Rightarrow> 'a \<Rightarrow> 'a) \<Rightarrow> ('a, 'k) proc \<Rightarrow> ('a, 'k) inputs \<Rightarrow> 'a error + unit" where
  "check_inputs ea p inp = check_paths inp (expected ea p)"

text \<open>\<open>tuple(inputs[path] for path in ...)\<close>: a missing key raises \<open>KeyError\<close>.\<close>

fun lookup_paths :: "('a, 'k) inputs \<Rightarrow> 'a list \<Rightarrow> 'a error + ('k, real) NumDict list" where
  "lookup_paths inp [] = Inr []"
| "lookup_paths inp (path # paths) =
     (case inp path of
        None \<Rightarrow> Inl KeyError
      | Some d \<Rightarrow>
          (case lookup_paths inp paths of
             Inl e \<Rightarrow> Inl e
           | Inr ds \<Rightarrow> Inr (d # ds)))"

definition extract_inputs ::
  "(Symbol list \<Rightarrow> 'a \<Rightarrow> 'a) \<Rightarrow> ('a, 'k) proc \<Rightarrow> ('a, 'k) inputs \<Rightarrow> 'a error + ('k, real) NumDict list" where
  "extract_inputs ea p inp =
     (case check_inputs ea p inp of
        Inl e \<Rightarrow> Inl e
      | Inr u \<Rightarrow> lookup_paths inp (expected ea p))"

text \<open>
  \<open>emit\<close>. The function \<open>squeeze\<close> of the \<open>numdicts\<close> package is not among the sources;
  it is the parameter \<open>sq\<close>. The tests come in the order of the source: \<open>None\<close> first,
  then the default (an attribute that the object may lack), then the instance test.
\<close>

fun emit :: "(('k, real) NumDict \<Rightarrow> ('k, real) NumDict) \<Rightarrow> 'k pyobj \<Rightarrow> 'a error + ('k, real) NumDict" where
  "emit sq PyNone = Inr \<lparr>dict = [], default_val = Some 0\<rparr>"
| "emit sq (NumDictObj d) =
     (if default_val d \<noteq> Some 0 then Inl InvalidDefault else Inr (sq d))"
| "emit sq (OtherObj None) = Inl AttributeError"
| "emit sq (OtherObj (Some dflt)) =
     (if dflt \<noteq> Some 0 then Inl InvalidDefault else Inl InvalidOutputType)"





section \<open>Rules\<close>

text \<open>
  The arithmetic of Python floats that \<open>Rule.__init__\<close> uses, as parameters: the literal
  \<open>1.0\<close>, the sum that \<open>val_sum\<close> takes of a list of floats, the division of \<open>/=\<close>, and the
  tests \<open>x > 1.0\<close> and \<open>x <= 1\<close>. Nothing is assumed of them: a sum or a quotient may be
  rounded, may overflow, and a test may fail on the result.
\<close>

record 'v float_ops =
  fone :: 'v
  fsum :: "'v list \<Rightarrow> 'v"
  fdiv :: "'v \<Rightarrow> 'v \<Rightarrow> 'v"
  gt_one :: "'v \<Rightarrow> bool"
  le_one :: "'v \<Rightarrow> bool"

text \<open>
  Modelled from the spec: the operations of the \<open>numdicts\<close> package that \<open>Rule.__init__\<close>
  uses (\<open>MutableNumDict\<close>, \<open>extend\<close>, \<open>val_sum\<close>, in-place division, \<open>freeze\<close>) are not
  among the sources; \<open>extend\<close> is \<open>extend_nd\<close> here and \<open>/=\<close> is \<open>idiv\<close>. They follow
  the spec's activation map, "a mutable builder" and "an immutable snapshot" of one
  sparse mapping with "explicit conversion operations" and elementwise arithmetic, and
  the docstring of \<open>Rule.__init__\<close>: the weights are "extended to map each of these
  items to a weight of 1", and renormalised "such that each weight w is mapped to
  w / sum(weights.values())".
\<close>

definition MutableNumDict :: "('k \<times> 'v) list option \<Rightarrow> ('k, 'v) NumDict" where
  "MutableNumDict data =
     \<lparr>dict = (case data of None \<Rightarrow> [] | Some d \<Rightarrow> d), default_val = None\<rparr>"

definition keys :: "('k, 'v) NumDict \<Rightarrow> 'k list" where
  "keys d = map fst (dict d)"

fun extend_dict :: "('k \<times> 'v) list \<Rightarrow> 'k list \<Rightarrow> 'v \<Rightarrow> ('k \<times> 'v) list" where
  "extend_dict d [] v = d"
| "extend_dict d (k # ks) v =
     extend_dict (if k \<in> set (map fst d) then d else d @ [(k, v)]) ks v"

definition extend_nd :: "('k, 'v) NumDict \<Rightarrow> 'k list \<Rightarrow> 'v \<Rightarrow> ('k, 'v) NumDict" where
  "extend_nd d ks v = d\<lparr>dict := extend_dict (dict d) ks v\<rparr>"

definition val_sum :: "'v float_ops \<Rightarrow> ('k, 'v) NumDict \<Rightarrow> 'v" where
  "val_sum ops d = fsum ops (map snd (dict d))"

definition idiv :: "'v float_ops \<Rightarrow> ('k, 'v) NumDict \<Rightarrow> 'v \<Rightarrow> ('k, 'v) NumDict" where
  "idiv ops d s =
     \<lparr>dict = map (\<lambda>(k, v). (k, fdiv ops v s)) (dict d),
      default_val = map_option (\<lambda>v. fdiv ops v s) (default_val d)\<rparr>"

definition freeze :: "('k, 'v) NumDict \<Rightarrow> ('k, 'v) NumDict" where
  "freeze d = d"

text \<open>
  A rule form: the slots \<open>_conc\<close> and \<open>_weights\<close>, and the class of the object with its
  ancestors, which \<open>isinstance\<close> reads.
\<close>

record ('c, 'v) Rule =
  conc :: 'c
  weights :: "('c, 'v) NumDict"
  classes :: "string list"

definition isinstance :: "('c, 'v) Rule \<Rightarrow> string \<Rightarrow> bool" where
  "isinstance form cls = (cls \<in> set (classes form))"

text \<open>
  The exceptions of \<open>components/rules.py\<close>. All but \<open>KeyError\<close> and \<open>AssertionError\<close> are
  \<open>ValueError\<close>s in the source, told apart by their messages: "already registered for a
  promised update", "Cannot delete non-existent rule.", "Received rule with {}
  conditions; maximum allowed is {}." and "Rule {} contains unexpected chunks.".
\<close>

datatype rules_error =
    PromisedUpdate
  | NonExistentRule
  | TooManyConds
  | UnsupportedRule
  | RuleKeyError
  | AssertionError

text \<open>
  \<open>Rule.__init__\<close>. The two tests under "preconditions" build a \<open>ValueError\<close> and drop
  it, so they change nothing. The two assertions under "postconditions" are kept: the
  second tests the sum of the weights as the float arithmetic computes it.
\<close>

definition Rule_init ::
  "'v float_ops \<Rightarrow> 'c \<Rightarrow> 'c list \<Rightarrow> ('c \<times> 'v) list option \<Rightarrow> rules_error + ('c, 'v) Rule" where
  "Rule_init ops cn conds wts =
     (let ws = MutableNumDict wts;
          ws = extend_nd ws conds (fone ops);
          w_sum = val_sum ops ws;
          ws = (if gt_one ops w_sum then idiv ops ws w_sum else ws);
          self = \<lparr>conc = cn, weights = freeze ws, classes = [''Rule'']\<rparr>
      in if set (keys (weights self)) \<noteq> set conds then Inl AssertionError
         else if \<not> le_one ops (val_sum ops ws) then Inl AssertionError
         else Inr self)"

section \<open>Rule databases\<close>

text \<open>
  Modelled from the spec: the class \<open>Chunks\<close> of \<open>components/chunks_.py\<close> is not among the
  sources. \<open>Rule.support\<close> asks a chunk database only whether it holds a chunk symbol
  (\<open>c in d\<close>), so a chunk database is the set of the chunk symbols it holds.
\<close>

definition support :: "('c, 'v) Rule \<Rightarrow> 'c set list \<Rightarrow> bool" where
  "support self dbs = list_all (\<lambda>c. list_ex (\<lambda>d. c \<in> d) dbs) (conc self # keys (weights self))"

text \<open>
  The state of a \<open>Rules\<close> object. \<open>_data\<close> and \<open>_add_promises\<close> are dictionaries, kept as
  lists of pairs in insertion order; \<open>_del_promises\<close> is a set, kept as the list of its
  elements in the order in which a loop visits them. \<open>rule_type\<close> is the attribute \<open>Rule\<close>,
  the name of the class of rule that the database holds. \<open>_enforce_support\<close> and \<open>_cdbs\<close>
  are what the context manager \<open>enforce_support\<close> sets while it is open.
\<close>

record ('r, 'c, 'v) Rules =
  data :: "('r \<times> ('c, 'v) Rule) list"
  cdbs :: "'c set list"
  enforce_support :: bool
  max_conds :: "int option"
  rule_type :: string
  add_promises :: "('r \<times> ('c, 'v) Rule) list"
  del_promises :: "'r list"

definition Rules_init ::
  "('r \<times> ('c, 'v) Rule) list option \<Rightarrow> int option \<Rightarrow> string option \<Rightarrow> ('r, 'c, 'v) Rules" where
  "Rules_init dt mc rt =
     \<lparr>data = (case dt of None \<Rightarrow> [] | Some d \<Rightarrow> d),
      cdbs = [],
      enforce_support = False,
      max_conds = mc,
      rule_type = (case rt of None \<Rightarrow> ''Rule'' | Some t \<Rightarrow> t),
      add_promises = [],
      del_promises = []\<rparr>"

text \<open>
  A method that changes the database returns the exception it raised, if any, and the
  database as the call leaves it: what was done before an exception stays done.
\<close>

type_synonym ('r, 'c, 'v) outcome = "rules_error option \<times> ('r, 'c, 'v) Rules"

definition validate_rule_form :: "('r, 'c, 'v) Rules \<Rightarrow> ('c, 'v) Rule \<Rightarrow> rules_error option" where
  "validate_rule_form self form =
     (case max_conds self of
        None \<Rightarrow> None
      | Some m \<Rightarrow> if int (length (dict (weights form))) > m then Some TooManyConds else None)"

text \<open>
  \<open>__setitem__\<close>. In the last branch the source builds a \<open>TypeError\<close> and drops it: a
  value that is no instance of the rule type is left out without an exception.
\<close>

definition setitem :: "('r, 'c, 'v) Rules \<Rightarrow> 'r \<Rightarrow> ('c, 'v) Rule \<Rightarrow> ('r, 'c, 'v) outcome" where
  "setitem self key val =
     (case validate_rule_form self val of
        Some e \<Rightarrow> (Some e, self)
      | None \<Rightarrow>
          if isinstance val (rule_type self)
          then (if enforce_support self \<and> \<not> support val (cdbs self)
                then (Some UnsupportedRule, self)
                else (None, self\<lparr>data := AList.update key val (data self)\<rparr>))
          else (None, self))"

definition contains :: "('r, 'c, 'v) Rules \<Rightarrow> 'r \<Rightarrow> bool" where
  "contains self key = (key \<in> set (map fst (data self)))"

definition delitem :: "('r, 'c, 'v) Rules \<Rightarrow> 'r \<Rightarrow> ('r, 'c, 'v) outcome" where
  "delitem self key =
     (if key \<in> set (map fst (data self))
      then (None, self\<lparr>data := AList.delete key (data self)\<rparr>)
      else (Some RuleKeyError, self))"

definition request_add :: "('r, 'c, 'v) Rules \<Rightarrow> 'r \<Rightarrow> ('c, 'v) Rule \<Rightarrow> ('r, 'c, 'v) outcome" where
  "request_add self r form =
     (if r \<in> set (map fst (add_promises self)) \<or> r \<in> set (del_promises self)
      then (Some PromisedUpdate, self)
      else (None, self\<lparr>add_promises := AList.update r form (add_promises self)\<rparr>))"

definition request_del :: "('r, 'c, 'v) Rules \<Rightarrow> 'r \<Rightarrow> ('r, 'c, 'v) outcome" where
  "request_del self r =
     (if r \<in> set (map fst (add_promises self)) \<or> r \<in> set (del_promises self)
      then (Some PromisedUpdate, self)
      else if \<not> contains self r then (Some NonExistentRule, self)
      else (None, self\<lparr>del_promises := del_promises self @ [r]\<rparr>))"

text \<open>The loop \<open>for r in self._del_promises: del self[r]\<close> of \<open>step\<close>.\<close>

fun del_loop :: "('r, 'c, 'v) Rules \<Rightarrow> 'r list \<Rightarrow> ('r, 'c, 'v) outcome" where
  "del_loop self [] = (None, self)"
| "del_loop self (r # rs) =
     (case delitem self r of
        (Some e, self') \<Rightarrow> (Some e, self')
      | (None, self') \<Rightarrow> del_loop self' rs)"

text \<open>
  \<open>self.update(other)\<close>, which \<open>MutableMapping\<close> of the standard library provides: for a
  mapping \<open>other\<close> it runs \<open>self[key] = other[key]\<close> for each key of \<open>other\<close>.
\<close>

fun update :: "('r, 'c, 'v) Rules \<Rightarrow> ('r \<times> ('c, 'v) Rule) list \<Rightarrow> ('r, 'c, 'v) outcome" where
  "update self [] = (None, self)"
| "update self ((key, val) # other) =
     (case setitem self key val of
        (Some e, self') \<Rightarrow> (Some e, self')
      | (None, self') \<Rightarrow> update self' other)"

definition step :: "('r, 'c, 'v) Rules \<Rightarrow> ('r, 'c, 'v) outcome" where
  "step self =
     (case del_loop self (del_promises self) of
        (Some e, self1) \<Rightarrow> (Some e, self1)
      | (None, self1) \<Rightarrow>
          (let self2 = self1\<lparr>del_promises := []\<rparr> in
           case update self2 (add_promises self2) of
             (Some e, self3) \<Rightarrow> (Some e, self3)
           | (None, self3) \<Rightarrow> (None, self3\<lparr>add_promises := []\<rparr>)))"

text \<open>
  A rule symbol is pending when an addition or a deletion is registered for it. The
  logs hold at most one update for each rule symbol when no symbol is registered twice.
\<close>

definition pending :: "('r, 'c, 'v) Rules \<Rightarrow> 'r \<Rightarrow> bool" where
  "pending self r = (r \<in> set (map fst (add_promises self)) \<or> r \<in> set (del_promises self))"

definition one_update_each :: "('r, 'c, 'v) Rules \<Rightarrow> bool" where
  "one_update_each self =
     distinct (map fst (add_promises self) @ del_promises self)"

text \<open>A rule form that \<open>__setitem__\<close> stores: it passes each test of the database.\<close>

definition accepted :: "('r, 'c, 'v) Rules \<Rightarrow> ('c, 'v) Rule \<Rightarrow> bool" where
  "accepted self form =
     (validate_rule_form self form = None \<and> isinstance form (rule_type self) \<and>
      \<not> (enforce_support self \<and> \<not> support form (cdbs self)))"

section \<open>Properties of processes\<close>

lemma entrust_expected_field:
  "entrust p path = Inr p' \<Longrightarrow> expected_field p' = expected_field p"
  by (induction p arbitrary: p') (auto split: if_splits sum.splits)

lemma entrust_all_expected_field:
  "entrust_all p paths = Inr p' \<Longrightarrow> expected_field p' = expected_field p"
  by (induction paths arbitrary: p) (auto split: sum.splits dest: entrust_expected_field)

lemma entrust_Composite:
  "entrust (Composite b etop ex hk) path = Inr p' \<Longrightarrow>
   \<exists>b'. entrust b path = Inr b' \<and> p' = Composite b' etop ex hk"
  by (auto split: sum.splits)

lemma entrust_all_Composite:
  "entrust_all (Composite b etop ex hk) paths = Inr p' \<Longrightarrow>
   \<exists>b'. entrust_all b paths = Inr b' \<and> p' = Composite b' etop ex hk"
proof (induction paths arbitrary: b)
  case Nil
  then show ?case by simp
next
  case (Cons path paths)
  from Cons.prems obtain p1 where
    p1: "entrust (Composite b etop ex hk) path = Inr p1" and
    rest: "entrust_all p1 paths = Inr p'"
    by (auto split: sum.splits)
  from entrust_Composite [OF p1] obtain b1 where
    b1: "entrust b path = Inr b1" and p1_eq: "p1 = Composite b1 etop ex hk"
    by blast
  from Cons.IH [of b1] rest p1_eq obtain b' where
    "entrust_all b1 paths = Inr b'" and "p' = Composite b' etop ex hk"
    by blast
  with b1 show ?case by simp
qed

text \<open>
  C1. A composite built by \<open>Composite.__init__\<close> over any base, with any hooks, and then
  entrusted any number of times (not at all, when \<open>paths\<close> is empty): its \<open>expected\<close>
  list is its own extra addresses, expanded against the client it shares with its base
  (\<open>expected_top\<close>), followed by the \<open>expected\<close> list of its base, in the order of both.
\<close>

theorem composite_expected:
  assumes "entrust_all (Composite_init b etop hk) paths = Inr c"
  shows "expected ea c = expected_top ea c @ expected ea (base c)"
proof -
  from assms obtain b' where
    b': "entrust_all b paths = Inr b'" and
    c: "c = Composite b' etop (etop @ expected_field b) hk"
    unfolding Composite_init_def by (blast dest: entrust_all_Composite)
  from entrust_all_expected_field [OF b'] have "expected_field b' = expected_field b" .
  with c show ?thesis by (simp add: expected_def)
qed

theorem composite_expected_witness:
  "entrust_all
     (Composite_init (Process_init 4 Process_call [[Symbol 1 ''src'']])
        [[Symbol 2 ''extra'']] (Some Wrapped_hooks))
     [[Symbol 8 ''agent'', Symbol 4 ''flow'']]
   = (Inr (Composite
        (Process 4 [Symbol 8 ''agent'', Symbol 4 ''flow''] [[Symbol 1 ''src'']] Process_call)
        [[Symbol 2 ''extra'']] [[Symbol 2 ''extra''], [Symbol 1 ''src'']]
        (Some Wrapped_hooks))
      :: Symbol list error + (Symbol list, nat) proc) \<and>
   expected (\<lambda>cl a. cl @ a)
     (Composite
        (Process 4 [Symbol 8 ''agent'', Symbol 4 ''flow''] [[Symbol 1 ''src'']] Process_call)
        [[Symbol 2 ''extra'']] [[Symbol 2 ''extra''], [Symbol 1 ''src'']]
        (Some Wrapped_hooks) :: (Symbol list, nat) proc)
   = [[Symbol 8 ''agent'', Symbol 4 ''flow'', Symbol 2 ''extra'']] @
     [[Symbol 8 ''agent'', Symbol 4 ''flow'', Symbol 1 ''src'']]"
proof -
  let ?c = "Composite
        (Process 4 [Symbol 8 ''agent'', Symbol 4 ''flow''] [[Symbol 1 ''src'']] Process_call)
        [[Symbol 2 ''extra'']] [[Symbol 2 ''extra''], [Symbol 1 ''src'']]
        (Some Wrapped_hooks) :: (Symbol list, nat) proc"
  have h: "entrust_all
     (Composite_init (Process_init 4 Process_call [[Symbol 1 ''src'']])
        [[Symbol 2 ''extra'']] (Some Wrapped_hooks))
     [[Symbol 8 ''agent'', Symbol 4 ''flow'']]
   = (Inr ?c :: Symbol list error + (Symbol list, nat) proc)"
    by (simp add: Composite_init_def Process_init_def ctype_in_def)
  from composite_expected [OF h, of "\<lambda>cl a. cl @ a"]
  have "expected (\<lambda>cl a. cl @ a) ?c
        = expected_top (\<lambda>cl a. cl @ a) ?c @ expected (\<lambda>cl a. cl @ a) (base ?c)" .
  then have "expected (\<lambda>cl a. cl @ a) ?c
        = [[Symbol 8 ''agent'', Symbol 4 ''flow'', Symbol 2 ''extra'']] @
          [[Symbol 8 ''agent'', Symbol 4 ''flow'', Symbol 1 ''src'']]"
    by (simp add: expected_def)
  with h show ?thesis by blast
qed

subsection \<open>Entrustment\<close>

lemma entrust_result:
  "path \<noteq> [] \<Longrightarrow>
   (if ctype_in (ctype (last path)) (serves p)
    then \<exists>p'. entrust p path = Inr p' \<and> client p' = path \<and> serves p' = serves p \<and>
           expected_field p' = expected_field p
    else entrust p path = Inl KindMismatch)"
  by (induction p) auto

lemma entrust_serves: "entrust p path = Inr p' \<Longrightarrow> serves p' = serves p"
  by (induction p arbitrary: p') (auto split: if_splits sum.splits)

lemma entrust_overwrites: "entrust p path1 = Inr p1 \<Longrightarrow> entrust p1 path2 = entrust p path2"
proof (induction p arbitrary: p1)
  case (Process sv cl ex cf)
  then show ?case by (auto split: if_splits)
next
  case (Composite b etop ex hk)
  from entrust_Composite [OF Composite.prems] obtain b1 where
    b1: "entrust b path1 = Inr b1" and p1: "p1 = Composite b1 etop ex hk"
    by blast
  from Composite.IH [OF b1] have "entrust b1 path2 = entrust b path2" .
  with p1 show ?case by simp
qed

text \<open>
  C4. For every process and every non-empty path, \<open>entrust\<close> succeeds exactly when the
  kind of the last symbol of the path is in the servable-kind set that the process
  consults; the process it leaves has its client bound to the path, and its expected
  addresses are untouched. Otherwise it fails with \<open>KindMismatch\<close>.
\<close>

theorem entrust_kind:
  assumes "path \<noteq> []"
  shows "if ctype_in (ctype (last path)) (serves p)
         then \<exists>p'. entrust p path = Inr p' \<and> client p' = path \<and>
                expected_field p' = expected_field p
         else entrust p path = Inl KindMismatch"
  using entrust_result [OF assms, of p] by (auto split: if_splits)

theorem entrust_kind_witness:
  "[Symbol 8 ''agent'', Symbol 4 ''flow''] \<noteq> [] \<and>
   ctype_in 4 12 \<and>
   (\<exists>p'. entrust (Process_init 12 Process_call [[Symbol 1 ''src'']]
              :: (Symbol list, nat) proc)
            [Symbol 8 ''agent'', Symbol 4 ''flow''] = Inr p' \<and>
          client p' = [Symbol 8 ''agent'', Symbol 4 ''flow'']) \<and>
   \<not> ctype_in 1 12 \<and>
   entrust (Process_init 12 Process_call [[Symbol 1 ''src'']] :: (Symbol list, nat) proc)
     [Symbol 8 ''agent'', Symbol 1 ''chunk''] = Inl KindMismatch"
proof -
  let ?p = "Process_init 12 Process_call [[Symbol 1 ''src'']] :: (Symbol list, nat) proc"
  have ne1: "[Symbol 8 ''agent'', Symbol 4 ''flow''] \<noteq> []" by simp
  have ne2: "[Symbol 8 ''agent'', Symbol 1 ''chunk''] \<noteq> []" by simp
  have sv: "serves ?p = 12" by (simp add: Process_init_def)
  have k1: "ctype_in 4 12" by (simp add: ctype_in_def)
  have k2: "\<not> ctype_in 1 12" by (simp add: ctype_in_def)
  from entrust_kind [OF ne1, of ?p] sv k1
  have a: "\<exists>p'. entrust ?p [Symbol 8 ''agent'', Symbol 4 ''flow''] = Inr p' \<and>
             client p' = [Symbol 8 ''agent'', Symbol 4 ''flow'']"
    by auto
  from entrust_kind [OF ne2, of ?p] sv k2
  have b: "entrust ?p [Symbol 8 ''agent'', Symbol 1 ''chunk''] = Inl KindMismatch"
    by simp
  from ne1 k1 a k2 b show ?thesis by blast
qed

text \<open>
  C5, as the spec states it: a process already entrusted refuses a second entrustment.
  The source has no such guard. Here a process serving kind 4 is entrusted to one path
  and then to another of the same kind: the second call succeeds and rebinds the client.
\<close>

theorem entrust_once_counterexample:
  "entrust (Process_init 4 Process_call [] :: (Symbol list, nat) proc)
     [Symbol 8 ''agent'', Symbol 4 ''first'']
   = Inr (Process 4 [Symbol 8 ''agent'', Symbol 4 ''first''] [] Process_call) \<and>
   entrust (Process 4 [Symbol 8 ''agent'', Symbol 4 ''first''] [] Process_call
            :: (Symbol list, nat) proc)
     [Symbol 8 ''agent'', Symbol 4 ''second'']
   = Inr (Process 4 [Symbol 8 ''agent'', Symbol 4 ''second''] [] Process_call) \<and>
   client (Process 4 [Symbol 8 ''agent'', Symbol 4 ''second''] [] Process_call
           :: (Symbol list, nat) proc)
   \<noteq> [Symbol 8 ''agent'', Symbol 4 ''first'']"
  by (simp add: Process_init_def ctype_in_def)

text \<open>
  C5, amended. \<open>entrust\<close> keeps no record of an earlier entrustment: on a process already
  entrusted, a second call does what a first call with the same path does. With a
  non-empty path whose last symbol has a servable kind it succeeds and rebinds the client
  to the new path; with another kind it fails with \<open>KindMismatch\<close>.
\<close>

theorem entrust_again:
  assumes "entrust p path1 = Inr p1" and "path2 \<noteq> []"
  shows "entrust p1 path2 = entrust p path2 \<and>
         (if ctype_in (ctype (last path2)) (serves p)
          then \<exists>p2. entrust p1 path2 = Inr p2 \<and> client p2 = path2
          else entrust p1 path2 = Inl KindMismatch)"
proof -
  have same: "entrust p1 path2 = entrust p path2"
    using assms(1) by (rule entrust_overwrites)
  from entrust_result [OF assms(2), of p]
  have "if ctype_in (ctype (last path2)) (serves p)
        then \<exists>p2. entrust p path2 = Inr p2 \<and> client p2 = path2
        else entrust p path2 = Inl KindMismatch"
    by (auto split: if_splits)
  with same show ?thesis by simp
qed

theorem entrust_again_witness:
  "entrust (Process_init 4 Process_call [] :: (Symbol list, nat) proc)
     [Symbol 8 ''agent'', Symbol 4 ''first'']
   = Inr (Process 4 [Symbol 8 ''agent'', Symbol 4 ''first''] [] Process_call) \<and>
   [Symbol 8 ''agent'', Symbol 4 ''second''] \<noteq> [] \<and>
   entrust (Process 4 [Symbol 8 ''agent'', Symbol 4 ''first''] [] Process_call
            :: (Symbol list, nat) proc)
     [Symbol 8 ''agent'', Symbol 4 ''second'']
   = entrust (Process_init 4 Process_call []) [Symbol 8 ''agent'', Symbol 4 ''second'']"
proof -
  have h: "entrust (Process_init 4 Process_call [] :: (Symbol list, nat) proc)
     [Symbol 8 ''agent'', Symbol 4 ''first'']
   = Inr (Process 4 [Symbol 8 ''agent'', Symbol 4 ''first''] [] Process_call)"
    by (simp add: Process_init_def ctype_in_def)
  have ne: "[Symbol 8 ''agent'', Symbol 4 ''second''] \<noteq> []" by simp
  from entrust_again [OF h ne] h ne show ?thesis by blast
qed

subsection \<open>Extracting the inputs\<close>

lemma check_paths_Inl:
  "check_paths inp paths = Inl e \<Longrightarrow> \<exists>a. e = MissingInput a \<and> a \<in> set paths \<and> inp a = None"
  by (induction paths) (auto split: if_splits)

lemma check_paths_missing:
  "a \<in> set paths \<Longrightarrow> inp a = None \<Longrightarrow> \<exists>e. check_paths inp paths = Inl e"
  by (induction paths) auto

lemma check_paths_present:
  "\<forall>a\<in>set paths. inp a \<noteq> None \<Longrightarrow> check_paths inp paths = Inr ()"
  by (induction paths) auto

lemma lookup_paths_present:
  "\<forall>a\<in>set paths. inp a \<noteq> None \<Longrightarrow>
   \<exists>ds. lookup_paths inp paths = Inr ds \<and> map Some ds = map inp paths"
  by (induction paths) auto

text \<open>
  C6. For every process and every input bundle: when some expanded expected address is
  missing from the bundle, \<open>extract_inputs\<close> raises \<open>MissingInput\<close> naming an expected
  address that the bundle lacks; otherwise it returns the input maps found at the
  expected addresses, in the order of the expected addresses.
\<close>

theorem extract_inputs_result:
  "if \<exists>a\<in>set (expected ea p). inp a = None
   then \<exists>a. extract_inputs ea p inp = Inl (MissingInput a) \<and>
          a \<in> set (expected ea p) \<and> inp a = None
   else \<exists>ds. extract_inputs ea p inp = Inr ds \<and> map Some ds = map inp (expected ea p)"
proof (cases "\<exists>a\<in>set (expected ea p). inp a = None")
  case True
  then obtain e where e: "check_paths inp (expected ea p) = Inl e"
    by (blast dest: check_paths_missing)
  from check_paths_Inl [OF e] obtain a where
    "e = MissingInput a" and "a \<in> set (expected ea p)" and "inp a = None"
    by blast
  with e True show ?thesis
    by (auto simp: extract_inputs_def check_inputs_def)
next
  case False
  then have all: "\<forall>a\<in>set (expected ea p). inp a \<noteq> None" by simp
  from check_paths_present [OF all] lookup_paths_present [OF all] False
  show ?thesis
    by (auto simp: extract_inputs_def check_inputs_def)
qed

theorem extract_inputs_result_witness:
  "extract_inputs (\<lambda>cl a. cl @ a)
     (Process 4 [Symbol 8 ''agent''] [[Symbol 1 ''x''], [Symbol 1 ''y'']] Process_call
      :: (Symbol list, nat) proc)
     [[Symbol 8 ''agent'', Symbol 1 ''y''] \<mapsto> \<lparr>dict = [(3, 1)], default_val = Some 0\<rparr>,
      [Symbol 8 ''agent'', Symbol 1 ''x''] \<mapsto> \<lparr>dict = [], default_val = Some 0\<rparr>]
   = Inr [\<lparr>dict = [], default_val = Some 0\<rparr>, \<lparr>dict = [(3, 1)], default_val = Some 0\<rparr>] \<and>
   extract_inputs (\<lambda>cl a. cl @ a)
     (Process 4 [Symbol 8 ''agent''] [[Symbol 1 ''x''], [Symbol 1 ''y'']] Process_call
      :: (Symbol list, nat) proc)
     [[Symbol 8 ''agent'', Symbol 1 ''x''] \<mapsto> \<lparr>dict = [], default_val = Some 0\<rparr>]
   = Inl (MissingInput [Symbol 8 ''agent'', Symbol 1 ''y''])"
proof -
  let ?p = "Process 4 [Symbol 8 ''agent''] [[Symbol 1 ''x''], [Symbol 1 ''y'']] Process_call
      :: (Symbol list, nat) proc"
  let ?ea = "\<lambda>(cl :: Symbol list) a. cl @ a"
  let ?full = "[[Symbol 8 ''agent'', Symbol 1 ''y''] \<mapsto> \<lparr>dict = [(3::nat, 1)], default_val = Some 0\<rparr>,
      [Symbol 8 ''agent'', Symbol 1 ''x''] \<mapsto> \<lparr>dict = [], default_val = Some 0\<rparr>]"
  let ?part = "[[Symbol 8 ''agent'', Symbol 1 ''x'']
      \<mapsto> (\<lparr>dict = [], default_val = Some 0\<rparr> :: (nat, real) NumDict)]"
  have ex: "expected ?ea ?p = [[Symbol 8 ''agent'', Symbol 1 ''x''], [Symbol 8 ''agent'', Symbol 1 ''y'']]"
    by (simp add: expected_def)
  from extract_inputs_result [of ?ea ?p ?full]
  have a: "extract_inputs ?ea ?p ?full
           = Inr [\<lparr>dict = [], default_val = Some 0\<rparr>, \<lparr>dict = [(3, 1)], default_val = Some 0\<rparr>]"
    unfolding ex by (auto split: if_splits)
  from extract_inputs_result [of ?ea ?p ?part]
  have b: "extract_inputs ?ea ?p ?part = Inl (MissingInput [Symbol 8 ''agent'', Symbol 1 ''y''])"
    unfolding ex by (auto split: if_splits)
  from a b show ?thesis by blast
qed

subsection \<open>Emitting\<close>

text \<open>
  C3, as the spec states it: \<open>emit\<close> raises \<open>InvalidOutputType\<close> on every value that is
  not an activation map. The source tests the default before the type: an object that is
  no activation map and whose \<open>default\<close> is 1 raises \<open>InvalidDefault\<close>, whatever
  \<open>squeeze\<close> does.
\<close>

theorem emit_type_counterexample:
  "\<forall>sq. emit sq (OtherObj (Some (Some 1)) :: nat pyobj)
           = (Inl InvalidDefault :: nat error + (nat, real) NumDict) \<and>
         emit sq (OtherObj (Some (Some 1)) :: nat pyobj)
           \<noteq> (Inl InvalidOutputType :: nat error + (nat, real) NumDict)"
  by simp

text \<open>
  C3, amended. \<open>emit(None)\<close> returns the empty activation map with default 0. A value
  that carries a default which is not 0, activation map or not, raises \<open>InvalidDefault\<close>.
  An activation map with default 0 comes back squeezed. A value that is no activation
  map raises \<open>InvalidOutputType\<close> when its default is 0.
\<close>

theorem emit_result:
  "emit sq PyNone = Inr \<lparr>dict = [], default_val = Some 0\<rparr> \<and>
   (if default_val m \<noteq> Some 0
    then emit sq (NumDictObj m) = Inl InvalidDefault
    else emit sq (NumDictObj m) = Inr (sq m)) \<and>
   (if dflt \<noteq> Some 0
    then emit sq (OtherObj (Some dflt)) = Inl InvalidDefault
    else emit sq (OtherObj (Some dflt)) = Inl InvalidOutputType)"
  by simp

theorem emit_result_witness:
  "emit (\<lambda>d. d) (PyNone :: nat pyobj)
     = (Inr \<lparr>dict = [], default_val = Some 0\<rparr> :: nat error + (nat, real) NumDict) \<and>
   emit (\<lambda>d. d) (NumDictObj \<lparr>dict = [(2::nat, 1 / 2)], default_val = Some 1\<rparr>)
     = (Inl InvalidDefault :: nat error + (nat, real) NumDict) \<and>
   emit (\<lambda>d. d) (NumDictObj \<lparr>dict = [(2::nat, 1 / 2)], default_val = None\<rparr>)
     = (Inl InvalidDefault :: nat error + (nat, real) NumDict) \<and>
   emit (\<lambda>d. d) (NumDictObj \<lparr>dict = [(2::nat, 1 / 2)], default_val = Some 0\<rparr>)
     = (Inr \<lparr>dict = [(2::nat, 1 / 2)], default_val = Some 0\<rparr> :: nat error + (nat, real) NumDict) \<and>
   emit (\<lambda>d. d) (OtherObj (Some (Some 0)) :: nat pyobj)
     = (Inl InvalidOutputType :: nat error + (nat, real) NumDict)"
proof -
  let ?sq = "\<lambda>d :: (nat, real) NumDict. d"
  note r = emit_result [where ?'b = nat and ?'a = nat, of ?sq]
  have a: "emit ?sq PyNone = (Inr \<lparr>dict = [], default_val = Some 0\<rparr> :: nat error + (nat, real) NumDict)"
    using r by blast
  have b: "emit ?sq (NumDictObj \<lparr>dict = [(2::nat, 1 / 2)], default_val = Some 1\<rparr>)
     = (Inl InvalidDefault :: nat error + (nat, real) NumDict)"
    using r [of "\<lparr>dict = [(2::nat, 1 / 2)], default_val = Some 1\<rparr>"] by simp
  have c: "emit ?sq (NumDictObj \<lparr>dict = [(2::nat, 1 / 2)], default_val = None\<rparr>)
     = (Inl InvalidDefault :: nat error + (nat, real) NumDict)"
    using r [of "\<lparr>dict = [(2::nat, 1 / 2)], default_val = None\<rparr>"] by simp
  have d: "emit ?sq (NumDictObj \<lparr>dict = [(2::nat, 1 / 2)], default_val = Some 0\<rparr>)
     = (Inr \<lparr>dict = [(2::nat, 1 / 2)], default_val = Some 0\<rparr> :: nat error + (nat, real) NumDict)"
    using r [of "\<lparr>dict = [(2::nat, 1 / 2)], default_val = Some 0\<rparr>"] by simp
  have e: "emit ?sq (OtherObj (Some (Some 0)) :: nat pyobj)
     = (Inl InvalidOutputType :: nat error + (nat, real) NumDict)"
    using r [of _ "Some 0"] by simp
  from a b c d e show ?thesis by blast
qed

subsection \<open>Wrapped processes\<close>




section \<open>Properties of rule forms\<close>


lemma extend_dict_distinct:
  "distinct (map fst d) \<Longrightarrow> distinct (map fst (extend_dict d ks v))"
  by (induction ks arbitrary: d) auto











section \<open>Properties of rule databases\<close>

lemma update_new_key: "k \<notin> set (map fst al) \<Longrightarrow> AList.update k v al = al @ [(k, v)]"
  by (induction al) auto

lemma request_add_data: "data (snd (request_add self r form)) = data self"
  by (simp add: request_add_def)

lemma request_del_data: "data (snd (request_del self r)) = data self"
  by (simp add: request_del_def)

lemma accepted_data [simp]: "accepted (self\<lparr>data := d\<rparr>) form = accepted self form"
  by (simp add: accepted_def validate_rule_form_def)

lemma accepted_del_promises [simp]:
  "accepted (self\<lparr>del_promises := ds\<rparr>) form = accepted self form"
  by (simp add: accepted_def validate_rule_form_def)

lemma setitem_accepted:
  "accepted self form \<Longrightarrow>
   setitem self key form = (None, self\<lparr>data := AList.update key form (data self)\<rparr>)"
  by (auto simp: accepted_def setitem_def)

lemma del_loop_members:
  "distinct rs \<Longrightarrow> set rs \<subseteq> set (map fst (data self)) \<Longrightarrow>
   del_loop self rs = (None, self\<lparr>data := fold AList.delete rs (data self)\<rparr>)"
proof (induction rs arbitrary: self)
  case Nil
  then show ?case by simp
next
  case (Cons r rs)
  let ?self' = "self\<lparr>data := AList.delete r (data self)\<rparr>"
  from Cons.prems have r_in: "r \<in> set (map fst (data self))" by simp
  then have del: "delitem self r = (None, ?self')" by (simp add: delitem_def)
  from Cons.prems have "distinct rs" and "r \<notin> set rs" and "set rs \<subseteq> set (map fst (data self))"
    by simp_all
  then have "set rs \<subseteq> set (map fst (data ?self'))"
    by (auto simp: delete_keys)
  from Cons.IH [OF \<open>distinct rs\<close> this] del show ?case by simp
qed

lemma update_accepted:
  "\<forall>kv\<in>set other. accepted self (snd kv) \<Longrightarrow>
   update self other
     = (None, self\<lparr>data := fold (\<lambda>kv. AList.update (fst kv) (snd kv)) other (data self)\<rparr>)"
proof (induction other arbitrary: self)
  case Nil
  then show ?case by simp
next
  case (Cons kv other)
  obtain key val where kv: "kv = (key, val)" by (cases kv)
  let ?self' = "self\<lparr>data := AList.update key val (data self)\<rparr>"
  from Cons.prems kv have "accepted self val" by simp
  then have set: "setitem self key val = (None, ?self')" by (rule setitem_accepted)
  from Cons.prems have "\<forall>kv\<in>set other. accepted ?self' (snd kv)" by simp
  from Cons.IH [OF this] set kv show ?case by simp
qed

lemma map_of_fold_delete:
  "map_of (fold AList.delete rs d) k = (if k \<in> set rs then None else map_of d k)"
  by (induction rs arbitrary: d) (auto simp: delete_conv')

lemma map_of_fold_update:
  "distinct (map fst other) \<Longrightarrow>
   map_of (fold (\<lambda>kv. AList.update (fst kv) (snd kv)) other d) k
     = (case map_of other k of Some f \<Rightarrow> Some f | None \<Rightarrow> map_of d k)"
proof (induction other arbitrary: d)
  case Nil
  then show ?case by simp
next
  case (Cons kv other)
  obtain key val where kv: "kv = (key, val)" by (cases kv)
  from Cons.prems kv have dist: "distinct (map fst other)" and new: "key \<notin> set (map fst other)"
    by simp_all
  from new have none: "map_of other key = None"
    by (simp add: map_of_eq_None_iff)
  from Cons.IH [OF dist, of "AList.update key val d"] kv none show ?case
    by (auto simp: update_conv' split: option.splits)
qed

lemma step_accepted:
  assumes "distinct (del_promises self)"
    and "set (del_promises self) \<subseteq> set (map fst (data self))"
    and "\<forall>kv\<in>set (add_promises self). accepted self (snd kv)"
  shows "step self =
           (None, self\<lparr>data := fold (\<lambda>kv. AList.update (fst kv) (snd kv)) (add_promises self)
                                (fold AList.delete (del_promises self) (data self)),
                        add_promises := [], del_promises := []\<rparr>)"
proof -
  let ?self1 = "self\<lparr>data := fold AList.delete (del_promises self) (data self)\<rparr>"
  let ?self2 = "?self1\<lparr>del_promises := []\<rparr>"
  have d: "del_loop self (del_promises self) = (None, ?self1)"
    using assms(1,2) by (rule del_loop_members)
  from assms(3) have "\<forall>kv\<in>set (add_promises ?self2). accepted ?self2 (snd kv)" by simp
  from update_accepted [OF this]
  have u: "update ?self2 (add_promises ?self2)
           = (None, ?self2\<lparr>data := fold (\<lambda>kv. AList.update (fst kv) (snd kv))
                                      (add_promises ?self2) (data ?self2)\<rparr>)" .
  show ?thesis
    unfolding step_def d Let_def prod.case option.case u by simp
qed

text \<open>
  C9. A database whose logs hold at most one update for each rule symbol keeps them so
  under \<open>request_add\<close> and \<open>request_del\<close>. Each of the two raises an error, and leaves the
  database as it was, when the rule is already registered for an addition or for a
  deletion; \<open>request_del\<close> also raises an error when the rule is not a member of the
  database. Otherwise the request is registered.
\<close>

theorem request_once:
  "(one_update_each self \<longrightarrow>
      one_update_each (snd (request_add self r form)) \<and>
      one_update_each (snd (request_del self r))) \<and>
   request_add self r form =
     (if pending self r then (Some PromisedUpdate, self)
      else (None, self\<lparr>add_promises := add_promises self @ [(r, form)]\<rparr>)) \<and>
   request_del self r =
     (if pending self r then (Some PromisedUpdate, self)
      else if r \<notin> set (map fst (data self)) then (Some NonExistentRule, self)
      else (None, self\<lparr>del_promises := del_promises self @ [r]\<rparr>))"
  by (auto simp: one_update_each_def request_add_def request_del_def pending_def contains_def
      update_new_key)

theorem request_once_witness:
  "one_update_each
     (snd (request_del
        (Rules_init
           (Some [(5::nat, \<lparr>conc = 9::nat, weights = \<lparr>dict = [(3, 1::real)], default_val = None\<rparr>,
                      classes = [''Rule'']\<rparr>)])
           None None) 5)) \<and>
   one_update_each
     (snd (request_add
        (snd (request_del
           (Rules_init
              (Some [(5::nat, \<lparr>conc = 9::nat, weights = \<lparr>dict = [(3, 1::real)], default_val = None\<rparr>,
                         classes = [''Rule'']\<rparr>)])
              None None) 5))
        6 \<lparr>conc = 9, weights = \<lparr>dict = [(3, 1::real)], default_val = None\<rparr>, classes = [''Rule'']\<rparr>)) \<and>
   fst (request_add
        (snd (request_del
           (Rules_init
              (Some [(5::nat, \<lparr>conc = 9::nat, weights = \<lparr>dict = [(3, 1::real)], default_val = None\<rparr>,
                         classes = [''Rule'']\<rparr>)])
              None None) 5))
        5 \<lparr>conc = 9, weights = \<lparr>dict = [(3, 1::real)], default_val = None\<rparr>, classes = [''Rule'']\<rparr>)
     = Some PromisedUpdate \<and>
   fst (request_del
        (snd (request_del
           (Rules_init
              (Some [(5::nat, \<lparr>conc = 9::nat, weights = \<lparr>dict = [(3, 1::real)], default_val = None\<rparr>,
                         classes = [''Rule'']\<rparr>)])
              None None) 5))
        5)
     = Some PromisedUpdate \<and>
   fst (request_del
        (Rules_init
           (Some [(5::nat, \<lparr>conc = 9::nat, weights = \<lparr>dict = [(3, 1::real)], default_val = None\<rparr>,
                      classes = [''Rule'']\<rparr>)])
           None None) 6)
     = Some NonExistentRule"
proof -
  let ?f = "\<lparr>conc = 9::nat, weights = \<lparr>dict = [(3::nat, 1::real)], default_val = None\<rparr>,
             classes = [''Rule'']\<rparr>"
  let ?db0 = "Rules_init (Some [(5::nat, ?f)]) None None"
  let ?db1 = "snd (request_del ?db0 5)"
  have del1: "del_promises ?db1 = [5]" and add1: "add_promises ?db1 = []"
    and data0: "data ?db0 = [(5, ?f)]"
    by (simp_all add: request_del_def Rules_init_def contains_def)
  have one: "one_update_each ?db1"
    by (simp add: one_update_each_def del1 add1)
  have p1: "pending ?db1 5" by (simp add: pending_def del1)
  have p0: "\<not> pending ?db0 6" by (simp add: pending_def Rules_init_def)
  note t1 = request_once [of ?db1 6 ?f]
  note t2 = request_once [of ?db1 5 ?f]
  note t3 = request_once [of ?db0 6 ?f]
  from t1 one have a: "one_update_each (snd (request_add ?db1 6 ?f))" by blast
  from t2 p1 have b: "fst (request_add ?db1 5 ?f) = Some PromisedUpdate" by simp
  from t2 p1 have c: "fst (request_del ?db1 5) = Some PromisedUpdate" by simp
  from t3 p0 data0 have d: "fst (request_del ?db0 6) = Some NonExistentRule" by simp
  from one a b c d show ?thesis by blast
qed

text \<open>
  C8, as the spec states it: \<open>step\<close> applies every pending addition and leaves both logs
  empty. A database that admits rules of one condition at most is asked to add the rule
  that \<open>Rule.__init__\<close> builds from two conditions: the weights \<open>1\<close> and \<open>1\<close> sum to \<open>2\<close>
  and become \<open>1 / 2\<close> each, all of which float arithmetic computes exactly. The request
  is registered without validation. \<open>step\<close> then raises the \<open>ValueError\<close> of
  \<open>_validate_rule_form\<close>: the rule is not added and the addition stays in the log.
\<close>

theorem step_counterexample:
  "Rule_init
     \<lparr>fone = 1::real, fsum = sum_list, fdiv = (\<lambda>x y. x / y), gt_one = (\<lambda>x. 1 < x),
      le_one = (\<lambda>x. x \<le> 1)\<rparr>
     (9::nat) [1, 2] None
     = Inr \<lparr>conc = 9, weights = \<lparr>dict = [(1, 1 / 2 :: real), (2, 1 / 2)], default_val = None\<rparr>,
            classes = [''Rule'']\<rparr> \<and>
   fst (request_add (Rules_init None (Some 1) None) (5::nat)
          \<lparr>conc = 9::nat, weights = \<lparr>dict = [(1, 1 / 2 :: real), (2, 1 / 2)], default_val = None\<rparr>,
             classes = [''Rule'']\<rparr>)
     = None \<and>
   fst (step (snd (request_add (Rules_init None (Some 1) None) (5::nat)
          \<lparr>conc = 9::nat, weights = \<lparr>dict = [(1, 1 / 2 :: real), (2, 1 / 2)], default_val = None\<rparr>,
             classes = [''Rule'']\<rparr>)))
     = Some TooManyConds \<and>
   add_promises (snd (step (snd (request_add (Rules_init None (Some 1) None) (5::nat)
          \<lparr>conc = 9::nat, weights = \<lparr>dict = [(1, 1 / 2 :: real), (2, 1 / 2)], default_val = None\<rparr>,
             classes = [''Rule'']\<rparr>))))
     = [(5, \<lparr>conc = 9, weights = \<lparr>dict = [(1, 1 / 2 :: real), (2, 1 / 2)], default_val = None\<rparr>,
              classes = [''Rule'']\<rparr>)] \<and>
   data (snd (step (snd (request_add (Rules_init None (Some 1) None) (5::nat)
          \<lparr>conc = 9::nat, weights = \<lparr>dict = [(1, 1 / 2 :: real), (2, 1 / 2)], default_val = None\<rparr>,
             classes = [''Rule'']\<rparr>))))
     = []"
  by (simp add: Rule_init_def Let_def MutableNumDict_def extend_nd_def val_sum_def idiv_def
      freeze_def keys_def Rules_init_def request_add_def step_def setitem_def
      validate_rule_form_def)

text \<open>
  C8, amended. \<open>request_add\<close> and \<open>request_del\<close> leave the rules of the database as they
  are. When every pending deletion is a member of the database and every pending
  addition passes the tests that the database makes when it stores a rule (the bound on
  the number of conditions, the rule type, the support of the rule when it is enforced),
  \<open>step\<close> returns without an error, having applied every pending deletion and then every
  pending addition, and leaves both logs empty: afterwards a rule symbol with a pending
  addition maps to the form added, any other symbol with a pending deletion is absent,
  and every other symbol maps to what it mapped to before.
\<close>

theorem promised_updates:
  "data (snd (request_add self r form)) = data self \<and>
   data (snd (request_del self r)) = data self \<and>
   (distinct (del_promises self) \<and> set (del_promises self) \<subseteq> set (map fst (data self)) \<and>
    distinct (map fst (add_promises self)) \<and>
    (\<forall>kv\<in>set (add_promises self). accepted self (snd kv)) \<longrightarrow>
    (\<exists>self'. step self = (None, self') \<and>
       add_promises self' = [] \<and> del_promises self' = [] \<and>
       data self' = fold (\<lambda>kv. AList.update (fst kv) (snd kv)) (add_promises self)
                      (fold AList.delete (del_promises self) (data self)) \<and>
       (\<forall>k. map_of (data self') k =
          (case map_of (add_promises self) k of
             Some f \<Rightarrow> Some f
           | None \<Rightarrow> if k \<in> set (del_promises self) then None else map_of (data self) k))))"
proof -
  have "\<exists>self'. step self = (None, self') \<and>
       add_promises self' = [] \<and> del_promises self' = [] \<and>
       data self' = fold (\<lambda>kv. AList.update (fst kv) (snd kv)) (add_promises self)
                      (fold AList.delete (del_promises self) (data self)) \<and>
       (\<forall>k. map_of (data self') k =
          (case map_of (add_promises self) k of
             Some f \<Rightarrow> Some f
           | None \<Rightarrow> if k \<in> set (del_promises self) then None else map_of (data self) k))"
    if dd: "distinct (del_promises self)"
      and mem: "set (del_promises self) \<subseteq> set (map fst (data self))"
      and da: "distinct (map fst (add_promises self))"
      and acc: "\<forall>kv\<in>set (add_promises self). accepted self (snd kv)"
  proof -
    let ?d = "fold (\<lambda>kv. AList.update (fst kv) (snd kv)) (add_promises self)
                (fold AList.delete (del_promises self) (data self))"
    let ?self' = "self\<lparr>data := ?d, add_promises := [], del_promises := []\<rparr>"
    have st: "step self = (None, ?self')"
      using dd mem acc by (rule step_accepted)
    have "map_of ?d k =
          (case map_of (add_promises self) k of
             Some f \<Rightarrow> Some f
           | None \<Rightarrow> if k \<in> set (del_promises self) then None else map_of (data self) k)" for k
      by (simp only: map_of_fold_update [OF da] map_of_fold_delete)
    with st show ?thesis by simp
  qed
  then show ?thesis
    by (simp only: request_add_data request_del_data) blast
qed

theorem promised_updates_witness:
  "step \<lparr>data = [(5::nat, \<lparr>conc = 9::nat, weights = \<lparr>dict = [(3, 1::real)], default_val = None\<rparr>,
                     classes = [''Rule'']\<rparr>),
                 (6, \<lparr>conc = 8, weights = \<lparr>dict = [(3, 1::real)], default_val = None\<rparr>,
                     classes = [''Rule'']\<rparr>)],
         cdbs = [], enforce_support = False, max_conds = Some 1, rule_type = ''Rule'',
         add_promises = [(7, \<lparr>conc = 7, weights = \<lparr>dict = [(4, 1::real)], default_val = None\<rparr>,
                     classes = [''Rule'']\<rparr>)],
         del_promises = [5]\<rparr>
   = (None,
      \<lparr>data = [(6::nat, \<lparr>conc = 8::nat, weights = \<lparr>dict = [(3, 1::real)], default_val = None\<rparr>,
                     classes = [''Rule'']\<rparr>),
               (7, \<lparr>conc = 7, weights = \<lparr>dict = [(4, 1::real)], default_val = None\<rparr>,
                     classes = [''Rule'']\<rparr>)],
       cdbs = [], enforce_support = False, max_conds = Some 1, rule_type = ''Rule'',
       add_promises = [], del_promises = []\<rparr>)"
proof -
  let ?db = "\<lparr>data = [(5::nat, \<lparr>conc = 9::nat, weights = \<lparr>dict = [(3, 1::real)], default_val = None\<rparr>,
                     classes = [''Rule'']\<rparr>),
                 (6, \<lparr>conc = 8, weights = \<lparr>dict = [(3, 1::real)], default_val = None\<rparr>,
                     classes = [''Rule'']\<rparr>)],
         cdbs = [], enforce_support = False, max_conds = Some 1, rule_type = ''Rule'',
         add_promises = [(7, \<lparr>conc = 7, weights = \<lparr>dict = [(4, 1::real)], default_val = None\<rparr>,
                     classes = [''Rule'']\<rparr>)],
         del_promises = [5]\<rparr>"
  have h: "distinct (del_promises ?db) \<and> set (del_promises ?db) \<subseteq> set (map fst (data ?db)) \<and>
    distinct (map fst (add_promises ?db)) \<and>
    (\<forall>kv\<in>set (add_promises ?db). accepted ?db (snd kv))"
    by (simp add: accepted_def validate_rule_form_def isinstance_def)
  from promised_updates [of ?db 5 "\<lparr>conc = 7, weights = \<lparr>dict = [(4, 1::real)], default_val = None\<rparr>, classes = [''Rule'']\<rparr>"] h obtain db' where
    st: "step ?db = (None, db')" and "add_promises db' = []" and "del_promises db' = []" and
    "data db' = fold (\<lambda>kv. AList.update (fst kv) (snd kv)) (add_promises ?db)
                      (fold AList.delete (del_promises ?db) (data ?db))"
    by blast
  then have "db' = \<lparr>data = [(6::nat, \<lparr>conc = 8::nat, weights = \<lparr>dict = [(3, 1::real)], default_val = None\<rparr>,
                     classes = [''Rule'']\<rparr>),
               (7, \<lparr>conc = 7, weights = \<lparr>dict = [(4, 1::real)], default_val = None\<rparr>,
                     classes = [''Rule'']\<rparr>)],
       cdbs = [], enforce_support = False, max_conds = Some 1, rule_type = ''Rule'',
       add_promises = [], del_promises = []\<rparr>"
    by (simp add: step_def delitem_def setitem_def validate_rule_form_def isinstance_def
        AList.delete_eq)
  with st show ?thesis by simp
qed

end
